theory Spec2Isabelle
  imports Main
begin

section \<open>The platform the script runs on\<close>

text \<open>
  \<^verbatim>\<open>scripts/run-tests.js\<close> is sixteen lines of straight-line JavaScript. It calls three
  things of Node.js: \<^verbatim>\<open>path.join\<close>, \<^verbatim>\<open>child_process.spawnSync\<close> and
  \<^verbatim>\<open>process.exit\<close>, and it reads \<^verbatim>\<open>__dirname\<close> and \<^verbatim>\<open>process.env\<close>. This section
  models those as Node documents them (POSIX flavour); the script itself follows in the
  next section, statement by statement.
\<close>

subsection \<open>\<^verbatim>\<open>path.join\<close>\<close>

text \<open>
  \<^verbatim>\<open>path.join(...args)\<close> drops the empty arguments, glues the rest with \<^verbatim>\<open>/\<close> and
  normalises the result; with nothing left it returns \<^verbatim>\<open>.\<close>. Normalising cuts the path
  at every \<^verbatim>\<open>/\<close>, skips empty segments and \<^verbatim>\<open>.\<close>, and lets \<^verbatim>\<open>..\<close> remove the
  segment before it. A \<^verbatim>\<open>..\<close> with nothing before it is kept in a relative path and
  dropped in an absolute one. A trailing \<^verbatim>\<open>/\<close> survives.
\<close>

text \<open>\<^verbatim>\<open>s.split("/")\<close>: the pieces between the separators, always at least one.\<close>

fun split_sep :: "string \<Rightarrow> string list" where
  "split_sep [] = [[]]"
| "split_sep (c # cs) =
     (if c = CHR ''/'' then [] # split_sep cs
      else (case split_sep cs of
              [] \<Rightarrow> [[c]]
            | seg # segs \<Rightarrow> (c # seg) # segs))"

text \<open>\<^verbatim>\<open>segs.join("/")\<close>.\<close>

fun array_join :: "string list \<Rightarrow> string" where
  "array_join [] = []"
| "array_join [seg] = seg"
| "array_join (seg # next # segs) = seg @ CHR ''/'' # array_join (next # segs)"

text \<open>
  The segment walk of Node's \<^verbatim>\<open>normalizeString(path, allowAboveRoot, ...)\<close>; \<open>res\<close> holds
  the segments kept so far, the last one first.
\<close>

fun normalizeString :: "bool \<Rightarrow> string list \<Rightarrow> string list \<Rightarrow> string list" where
  "normalizeString allowAboveRoot res [] = rev res"
| "normalizeString allowAboveRoot res (seg # segs) =
     (if seg = [] \<or> seg = ''.'' then normalizeString allowAboveRoot res segs
      else if seg = ''..'' then
        (case res of
           [] \<Rightarrow> normalizeString allowAboveRoot (if allowAboveRoot then [''..''] else []) segs
         | lastSegment # kept \<Rightarrow>
             if lastSegment = ''..''
             then normalizeString allowAboveRoot
                    (if allowAboveRoot then ''..'' # res else res) segs
             else normalizeString allowAboveRoot kept segs)
      else normalizeString allowAboveRoot (seg # res) segs)"

definition normalize :: "string \<Rightarrow> string" where
  "normalize path =
     (if path = [] then ''.''
      else
        let isAbsolute = (hd path = CHR ''/'');
            trailingSeparator = (last path = CHR ''/'');
            res = array_join (normalizeString (\<not> isAbsolute) [] (split_sep path))
        in if res = []
           then (if isAbsolute then ''/'' else if trailingSeparator then ''./'' else ''.'')
           else (if isAbsolute then ''/'' else []) @ res
                  @ (if trailingSeparator then ''/'' else []))"

definition path_join :: "string list \<Rightarrow> string" where
  "path_join args =
     (let path = filter (\<lambda>arg. arg \<noteq> []) args
      in if path = [] then ''.'' else normalize (array_join path))"

subsection \<open>Objects and the process\<close>

text \<open>
  \<^verbatim>\<open>process.env\<close> and the object literal the script builds are JavaScript objects with
  string-valued properties. Objects live in a store and are handed around by reference,
  so that a write through one reference is seen through every other: whether the
  script's \<^verbatim>\<open>env\<close> is a copy of \<^verbatim>\<open>process.env\<close> or an alias of it is a fact about
  addresses.
\<close>

type_synonym addr = nat

type_synonym object = "string \<rightharpoonup> string"

record heap =
  objects :: "addr \<rightharpoonup> object"
  next_addr :: addr

text \<open>A new object takes the next free address.\<close>

definition alloc :: "object \<Rightarrow> heap \<Rightarrow> addr \<times> heap" where
  "alloc obj h =
     (next_addr h, h\<lparr>objects := (objects h)(next_addr h \<mapsto> obj), next_addr := Suc (next_addr h)\<rparr>)"

text \<open>
  The own enumerable properties behind a reference, which is what \<^verbatim>\<open>...ref\<close> copies and
  what \<^verbatim>\<open>spawnSync\<close> reads from \<^verbatim>\<open>options.env\<close>. Spreading something that is not an
  object copies nothing.
\<close>

definition own_props :: "heap \<Rightarrow> addr \<Rightarrow> object" where
  "own_props h a = (case objects h a of None \<Rightarrow> Map.empty | Some obj \<Rightarrow> obj)"

text \<open>The \<^verbatim>\<open>stdio\<close> option of \<^verbatim>\<open>spawnSync\<close>: \<^verbatim>\<open>"pipe"\<close>, \<^verbatim>\<open>"inherit"\<close>, \<^verbatim>\<open>"ignore"\<close>.\<close>

datatype stdio = Pipe | Inherit | Ignore

text \<open>The options object \<^verbatim>\<open>{ cwd, env, stdio }\<close>; \<^verbatim>\<open>env\<close> is a reference.\<close>

record options =
  opt_cwd :: string
  opt_env :: addr
  opt_stdio :: stdio

text \<open>
  What reaches the operating system when a child is started: the executable, its
  arguments, its working directory, its environment (the variables themselves, read from
  the referenced object when the call is made) and where its standard streams go.
\<close>

record launch =
  executable :: string
  args :: "string list"
  working_dir :: string
  environ :: object
  streams :: stdio

text \<open>
  How a started child can end: it exits with a status, a signal kills it, or it never
  starts (\<^verbatim>\<open>ENOENT\<close> when the executable is not found, and so on).
\<close>

datatype outcome = Exited int | Killed string | Launch_failed string

text \<open>
  The fields of \<^verbatim>\<open>spawnSync\<close>'s return value the script can see. \<^verbatim>\<open>status\<close> is the
  child's exit code, or \<^verbatim>\<open>null\<close> when a signal ended the child or it did not start.
\<close>

record spawn_result =
  status :: "int option"
  signal :: "string option"
  error :: "string option"

fun result_of :: "outcome \<Rightarrow> spawn_result" where
  "result_of (Exited code) = \<lparr>status = Some code, signal = None, error = None\<rparr>"
| "result_of (Killed sig) = \<lparr>status = None, signal = Some sig, error = None\<rparr>"
| "result_of (Launch_failed errno) = \<lparr>status = None, signal = None, error = Some errno\<rparr>"

text \<open>
  The running script: \<^verbatim>\<open>__dirname\<close>, \<^verbatim>\<open>process.argv\<close>, the reference \<^verbatim>\<open>process.env\<close>,
  the object store, the children it has asked the system to start, and its exit code
  once \<^verbatim>\<open>process.exit\<close> has been called.
\<close>

record process =
  dirname :: string
  argv :: "string list"
  process_env :: addr
  store :: heap
  launches :: "launch list"
  exit_code :: "int option"

text \<open>
  \<^verbatim>\<open>spawnSync(file, args, options)\<close>: the system, a parameter \<open>os\<close> of the model, decides
  how the child ends. The call reads the store and does not write it.
\<close>

definition spawnSync ::
  "(launch \<Rightarrow> outcome) \<Rightarrow> string \<Rightarrow> string list \<Rightarrow> options \<Rightarrow> process \<Rightarrow> spawn_result \<times> process" where
  "spawnSync os f as opts p =
     (let l = \<lparr>executable = f, args = as, working_dir = opt_cwd opts,
                environ = own_props (store p) (opt_env opts), streams = opt_stdio opts\<rparr>
      in (result_of (os l), p\<lparr>launches := launches p @ [l]\<rparr>))"

text \<open>
  \<^verbatim>\<open>process.exit(code)\<close> ends the process; \<open>code\<close> is the status its caller sees. Exit
  codes are the numbers Node reports and takes, unbounded integers here.
\<close>

definition process_exit :: "int \<Rightarrow> process \<Rightarrow> process" where
  "process_exit code p = p\<lparr>exit_code := Some code\<rparr>"

section \<open>The script\<close>

text \<open>\<^verbatim>\<open>const root = path.join(__dirname, "..");\<close>\<close>

definition root :: "string \<Rightarrow> string" where
  "root d = path_join [d, ''..'']"

text \<open>\<^verbatim>\<open>const parent = path.join(root, "..");\<close>\<close>

definition parent :: "string \<Rightarrow> string" where
  "parent d = path_join [root d, ''..'']"

text \<open>
  \<^verbatim>\<open>const env = { ...process.env, PYTHONPATH: parent };\<close> A new object: the properties
  of \<^verbatim>\<open>process.env\<close> are copied into it, then \<^verbatim>\<open>PYTHONPATH\<close> is written.
\<close>

definition env :: "process \<Rightarrow> addr \<times> process" where
  "env p =
     (let (a, h) = alloc ((own_props (store p) (process_env p))
                            (''PYTHONPATH'' \<mapsto> parent (dirname p))) (store p)
      in (a, p\<lparr>store := h\<rparr>))"

text \<open>
  The whole file: build \<^verbatim>\<open>env\<close>, call \<^verbatim>\<open>spawnSync\<close>, and
  \<^verbatim>\<open>process.exit(r.status !== null ? r.status : 1)\<close>.
\<close>

definition run_tests :: "(launch \<Rightarrow> outcome) \<Rightarrow> process \<Rightarrow> process" where
  "run_tests os p =
     (let (e, p1) = env p;
          (r, p2) = spawnSync os ''python''
                      [''-m'', ''unittest'', ''discover'', ''-s'', ''tests'', ''-p'', ''test_*.py'', ''-v'']
                      \<lparr>opt_cwd = root (dirname p), opt_env = e, opt_stdio = Inherit\<rparr> p1
      in process_exit (case status r of Some code \<Rightarrow> code | None \<Rightarrow> 1) p2)"

section \<open>Vocabulary of the statements\<close>

text \<open>What \<^verbatim>\<open>process.env\<close> holds.\<close>

definition ambient :: "process \<Rightarrow> object" where
  "ambient p = own_props (store p) (process_env p)"

text \<open>
  Node gives \<^verbatim>\<open>__dirname\<close> as an absolute path in normal form: a \<^verbatim>\<open>/\<close> followed by
  directory names separated by \<^verbatim>\<open>/\<close>. A directory name is not empty, is neither
  \<^verbatim>\<open>.\<close> nor \<^verbatim>\<open>..\<close>, and holds no \<^verbatim>\<open>/\<close>. The directory one level above
  \<open>absolute segs\<close> is \<open>absolute (butlast segs)\<close>; above \<^verbatim>\<open>/\<close> there is only \<^verbatim>\<open>/\<close>.
\<close>

definition proper_segment :: "string \<Rightarrow> bool" where
  "proper_segment seg \<longleftrightarrow>
     seg \<noteq> [] \<and> seg \<noteq> ''.'' \<and> seg \<noteq> ''..'' \<and> CHR ''/'' \<notin> set seg"

definition absolute :: "string list \<Rightarrow> string" where
  "absolute segs = CHR ''/'' # array_join segs"

text \<open>
  A process to evaluate the script on: the script lies in
  \<^verbatim>\<open>/srv/clawd_migrate/scripts\<close>, was started with two extra arguments, and has \<^verbatim>\<open>HOME\<close>
  and an old \<^verbatim>\<open>PYTHONPATH\<close> in its environment. \<open>example_launch\<close> is the child it asks
  for.
\<close>

definition example :: process where
  "example =
     \<lparr>dirname = ''/srv/clawd_migrate/scripts'',
      argv = [''node'', ''/srv/clawd_migrate/scripts/run-tests.js'', ''--fast'', ''x''],
      process_env = 0,
      store = \<lparr>objects = [0 \<mapsto> [''HOME'' \<mapsto> ''/root'', ''PYTHONPATH'' \<mapsto> ''/old'']],
               next_addr = 1\<rparr>,
      launches = [],
      exit_code = None\<rparr>"

definition example_launch :: launch where
  "example_launch =
     \<lparr>executable = ''python'',
      args = [''-m'', ''unittest'', ''discover'', ''-s'', ''tests'', ''-p'', ''test_*.py'', ''-v''],
      working_dir = ''/srv/clawd_migrate'',
      environ = [''HOME'' \<mapsto> ''/root'', ''PYTHONPATH'' \<mapsto> ''/srv''],
      streams = Inherit\<rparr>"

section \<open>Facts about \<^verbatim>\<open>path.join\<close>\<close>

lemma split_sep_no_sep: "CHR ''/'' \<notin> set s \<Longrightarrow> split_sep s = [s]"
  by (induction s) auto

lemma split_sep_append:
  "CHR ''/'' \<notin> set s \<Longrightarrow> split_sep (s @ CHR ''/'' # t) = s # split_sep t"
  by (induction s) auto

text \<open>Cutting a glued path gives the segments back.\<close>

lemma split_sep_array_join:
  "segs \<noteq> [] \<Longrightarrow> \<forall>seg \<in> set segs. CHR ''/'' \<notin> set seg \<Longrightarrow>
   split_sep (array_join segs @ CHR ''/'' # t) = segs @ split_sep t"
proof (induction segs rule: array_join.induct)
  case 1
  then show ?case by simp
next
  case (2 seg)
  then show ?case by (simp add: split_sep_append)
next
  case (3 seg nxt segs)
  then show ?case by (simp add: split_sep_append)
qed

text \<open>The walk keeps directory names as they are.\<close>

lemma normalizeString_proper:
  "\<forall>seg \<in> set segs. proper_segment seg \<Longrightarrow>
   normalizeString allow res (segs @ rest) = normalizeString allow (rev segs @ res) rest"
  by (induction segs arbitrary: res) (auto simp: proper_segment_def)

lemma parent_root: "parent d = root (root d)"
  by (simp add: parent_def root_def)

lemma root_absolute:
  assumes "\<forall>seg \<in> set segs. proper_segment seg"
  shows "root (absolute segs) = absolute (butlast segs)"
proof (cases "segs = []")
  case True
  then show ?thesis
    by (simp add: root_def path_join_def normalize_def absolute_def)
next
  case False
  from assms have nosep: "\<forall>seg \<in> set segs. CHR ''/'' \<notin> set seg"
    by (simp add: proper_segment_def)
  have split: "split_sep (array_join segs @ ''/..'') = segs @ [''..'']"
    using split_sep_array_join [OF False nosep, of "''..''"] by simp
  from False obtain front lastSegment where segs: "segs = front @ [lastSegment]"
    by (metis rev_exhaust)
  with assms have "lastSegment \<noteq> ''..''"
    by (auto simp: proper_segment_def)
  then have walk: "normalizeString False [] (segs @ [''..'']) = butlast segs"
    using normalizeString_proper [OF assms, of False "[]" "[''..'']"] by (simp add: segs)
  show ?thesis
    by (simp add: root_def path_join_def normalize_def absolute_def split walk Let_def)
qed

lemma root_example: "root ''/srv/clawd_migrate/scripts'' = ''/srv/clawd_migrate''"
  by (simp add: root_def path_join_def normalize_def)

lemma parent_example: "parent ''/srv/clawd_migrate/scripts'' = ''/srv''"
  by (simp add: parent_def root_example path_join_def normalize_def)

section \<open>Facts about a run\<close>

text \<open>A run in one equation: the one launch, the new object, the exit code.\<close>

lemma run_tests_unfold:
  "run_tests os p =
     (let l = \<lparr>executable = ''python'',
               args = [''-m'', ''unittest'', ''discover'', ''-s'', ''tests'', ''-p'', ''test_*.py'', ''-v''],
               working_dir = root (dirname p),
               environ = (ambient p)(''PYTHONPATH'' \<mapsto> parent (dirname p)),
               streams = Inherit\<rparr>
      in p\<lparr>store := snd (alloc ((ambient p)(''PYTHONPATH'' \<mapsto> parent (dirname p))) (store p)),
            launches := launches p @ [l],
            exit_code := Some (case status (result_of (os l)) of Some code \<Rightarrow> code | None \<Rightarrow> 1)\<rparr>)"
  by (simp add: run_tests_def env_def spawnSync_def process_exit_def alloc_def own_props_def
      ambient_def Let_def)

lemma run_tests_launches:
  "launches (run_tests os p) =
     launches p @
     [\<lparr>executable = ''python'',
       args = [''-m'', ''unittest'', ''discover'', ''-s'', ''tests'', ''-p'', ''test_*.py'', ''-v''],
       working_dir = root (dirname p),
       environ = (ambient p)(''PYTHONPATH'' \<mapsto> parent (dirname p)),
       streams = Inherit\<rparr>]"
  by (simp add: run_tests_unfold Let_def)

lemma run_tests_exit_code:
  "launches (run_tests os p) = launches p @ [l] \<Longrightarrow>
   exit_code (run_tests os p) =
     Some (case status (result_of (os l)) of Some code \<Rightarrow> code | None \<Rightarrow> 1)"
  by (simp add: run_tests_unfold Let_def)

lemma example_launches: "launches example = []"
  by (simp add: example_def)

lemma example_ambient: "ambient example = [''HOME'' \<mapsto> ''/root'', ''PYTHONPATH'' \<mapsto> ''/old'']"
  by (simp add: example_def ambient_def own_props_def)

lemma example_run_launches: "launches (run_tests os example) = launches example @ [example_launch]"
  by (simp add: run_tests_launches example_ambient example_launch_def)
    (simp add: example_def root_example parent_example)

section \<open>The exit status\<close>

text \<open>
  Claim C1. Whenever the child the script starts ends with an exit status \<open>n\<close>, the
  script calls \<^verbatim>\<open>process.exit\<close> with exactly \<open>n\<close>: with 0 when the child exits 0, with
  \<open>n\<close> when it exits \<open>n \<noteq> 0\<close>. Here \<open>l\<close> is the launch of the run and \<open>os l\<close> what
  the system makes of it.
\<close>

theorem exit_status_is_child_status:
  assumes "launches (run_tests os p) = launches p @ [l]"
    and "os l = Exited n"
  shows "exit_code (run_tests os p) = Some n"
  using assms by (simp add: run_tests_exit_code)

theorem exit_status_is_child_status_witness:
  "launches (run_tests (\<lambda>l. Exited 3) example) = launches example @ [example_launch] \<and>
   (\<lambda>l. Exited 3) example_launch = Exited 3 \<and>
   exit_code (run_tests (\<lambda>l. Exited 3) example) = Some 3 \<and>
   exit_code (run_tests (\<lambda>l. Exited 0) example) = Some 0"
proof -
  have fails: "exit_code (run_tests (\<lambda>l. Exited 3) example) = Some 3"
    by (rule exit_status_is_child_status [OF example_run_launches]) simp
  have passes: "exit_code (run_tests (\<lambda>l. Exited 0) example) = Some 0"
    by (rule exit_status_is_child_status [OF example_run_launches]) simp
  from fails passes show ?thesis
    by (simp add: example_run_launches)
qed

text \<open>
  Claim C2. Whenever the child yields no exit status, because a signal ended it or
  because it could not be started at all, the script calls \<^verbatim>\<open>process.exit\<close> with
  exactly 1.
\<close>

theorem no_status_exits_1:
  assumes "launches (run_tests os p) = launches p @ [l]"
    and "os l = Killed sig \<or> os l = Launch_failed errno"
  shows "exit_code (run_tests os p) = Some 1"
  using assms by (auto simp: run_tests_exit_code)

theorem no_status_exits_1_witness:
  "launches (run_tests (\<lambda>l. Launch_failed ''ENOENT'') example)
     = launches example @ [example_launch] \<and>
   exit_code (run_tests (\<lambda>l. Launch_failed ''ENOENT'') example) = Some 1 \<and>
   exit_code (run_tests (\<lambda>l. Killed ''SIGKILL'') example) = Some 1"
proof -
  have missing: "exit_code (run_tests (\<lambda>l. Launch_failed ''ENOENT'') example) = Some 1"
    by (rule no_status_exits_1 [OF example_run_launches, of _ "''SIGKILL''" "''ENOENT''"]) simp
  have killed: "exit_code (run_tests (\<lambda>l. Killed ''SIGKILL'') example) = Some 1"
    by (rule no_status_exits_1 [OF example_run_launches, of _ "''SIGKILL''" "''ENOENT''"]) simp
  from missing killed show ?thesis
    by (simp add: example_run_launches)
qed

text \<open>
  Claim C6. The script exits with 0 only if the child was started and itself exited
  with 0. A launch that fails therefore never shows as success.
\<close>

theorem exit_0_only_if_child_exits_0:
  assumes "exit_code (run_tests os p) = Some 0"
  shows "\<exists>l. launches (run_tests os p) = launches p @ [l] \<and> os l = Exited 0"
proof -
  obtain l where l: "launches (run_tests os p) = launches p @ [l]"
    by (simp add: run_tests_launches)
  with assms have "(case status (result_of (os l)) of Some code \<Rightarrow> code | None \<Rightarrow> 1) = 0"
    by (simp add: run_tests_exit_code)
  then have "os l = Exited 0"
    by (cases "os l") simp_all
  with l show ?thesis by blast
qed

theorem exit_0_only_if_child_exits_0_witness:
  "exit_code (run_tests (\<lambda>l. if executable l = ''python'' then Exited 0 else Launch_failed ''ENOENT'')
                example) = Some 0 \<and>
   (\<exists>l. launches (run_tests (\<lambda>l. if executable l = ''python'' then Exited 0
                                  else Launch_failed ''ENOENT'') example) = [l] \<and>
        executable l = ''python'')"
proof -
  let ?os = "\<lambda>l. if executable l = ''python'' then Exited 0 else Launch_failed ''ENOENT''"
  have h: "exit_code (run_tests ?os example) = Some 0"
    by (simp add: run_tests_unfold Let_def)
  from exit_0_only_if_child_exits_0 [OF h]
  obtain l where "launches (run_tests ?os example) = launches example @ [l]" and "?os l = Exited 0"
    by blast
  then have "launches (run_tests ?os example) = [l] \<and> executable l = ''python''"
    by (simp add: example_launches split: if_splits)
  with h show ?thesis by blast
qed

section \<open>The child's environment\<close>

text \<open>
  Claim C3. Whatever the ambient environment holds, with the variable set already or
  not, the environment the child gets has \<^verbatim>\<open>PYTHONPATH\<close> set to \<open>parent\<close>, the parent
  of the script's \<open>root\<close>: the old value is replaced, nothing is merged.
\<close>

theorem child_env_has_import_path:
  "\<exists>l. launches (run_tests os p) = launches p @ [l] \<and>
       environ l ''PYTHONPATH'' = Some (parent (dirname p)) \<and>
       parent (dirname p) = path_join [root (dirname p), ''..'']"
  by (simp add: run_tests_launches parent_def)

text \<open>
  Claim C8. Every variable other than \<^verbatim>\<open>PYTHONPATH\<close> reaches the child as the ambient
  environment has it: set to the same value when it is set there, and unset when it is
  not.
\<close>

theorem other_variables_passed_through:
  assumes "k \<noteq> ''PYTHONPATH''"
  shows "\<exists>l. launches (run_tests os p) = launches p @ [l] \<and> environ l k = ambient p k"
  using assms by (simp add: run_tests_launches)

theorem other_variables_passed_through_witness:
  "''HOME'' \<noteq> ''PYTHONPATH'' \<and> ambient example ''HOME'' = Some ''/root'' \<and>
   map (\<lambda>l. environ l ''HOME'') (launches (run_tests (\<lambda>l. Exited 0) example)) = [Some ''/root'']"
proof -
  have h: "''HOME'' \<noteq> ''PYTHONPATH''"
    by simp
  have a: "ambient example ''HOME'' = Some ''/root''"
    by (simp add: example_ambient)
  from other_variables_passed_through [OF h, of "\<lambda>l. Exited 0" example] a h show ?thesis
    by (auto simp: example_launches)
qed

text \<open>
  Claim C7. The ambient environment is the same after the run as before it: the
  object behind \<^verbatim>\<open>process.env\<close> keeps its properties, \<^verbatim>\<open>process.env\<close> still refers to
  it, and the script's \<^verbatim>\<open>env\<close> is another object. The hypothesis says that
  \<^verbatim>\<open>process.env\<close> refers to an object that exists.
\<close>

theorem ambient_env_unmodified:
  assumes "process_env p < next_addr (store p)"
  shows "process_env (run_tests os p) = process_env p \<and>
         ambient (run_tests os p) = ambient p \<and>
         fst (env p) \<noteq> process_env p"
  using assms
  by (simp add: run_tests_unfold Let_def ambient_def own_props_def alloc_def env_def)

theorem ambient_env_unmodified_witness:
  "process_env example < next_addr (store example) \<and>
   ambient (run_tests (\<lambda>l. Exited 0) example) ''PYTHONPATH'' = Some ''/old'' \<and>
   ambient (run_tests (\<lambda>l. Exited 0) example) ''HOME'' = Some ''/root''"
proof -
  have h: "process_env example < next_addr (store example)"
    by (simp add: example_def)
  from ambient_env_unmodified [OF h, of "\<lambda>l. Exited 0"] h show ?thesis
    by (simp add: example_ambient)
qed

section \<open>The command\<close>

text \<open>
  Claim C5. A run asks for exactly one child: the interpreter with the arguments
  \<^verbatim>\<open>-m unittest discover -s tests -p test_*.py -v\<close>, working directory \<open>root\<close>, the
  object \<^verbatim>\<open>env\<close> the script built as its environment, and \<^verbatim>\<open>stdio: "inherit"\<close>, which
  hands the script's own standard streams to the child.
\<close>

theorem one_child_with_fixed_command:
  "launches (run_tests os p) =
     launches p @
     [\<lparr>executable = ''python'',
       args = [''-m'', ''unittest'', ''discover'', ''-s'', ''tests'', ''-p'', ''test_*.py'', ''-v''],
       working_dir = root (dirname p),
       environ = own_props (store (snd (env p))) (fst (env p)),
       streams = Inherit\<rparr>]"
  by (simp add: run_tests_def env_def spawnSync_def process_exit_def alloc_def Let_def)

text \<open>
  Claim C9. The arguments the script is started with change nothing: two runs that
  differ only in \<^verbatim>\<open>process.argv\<close> ask for the same child with the same environment and
  end with the same exit code.
\<close>

theorem arguments_are_ignored:
  "launches (run_tests os (p\<lparr>argv := a\<rparr>)) = launches (run_tests os (p\<lparr>argv := b\<rparr>)) \<and>
   exit_code (run_tests os (p\<lparr>argv := a\<rparr>)) = exit_code (run_tests os (p\<lparr>argv := b\<rparr>))"
  by (simp add: run_tests_unfold Let_def ambient_def)

text \<open>
  Claim C10. The names are constants of the script: the executable is \<^verbatim>\<open>python\<close>, not
  \<^verbatim>\<open>python3\<close>, and the one variable the child's environment can have beyond the
  ambient ones is \<^verbatim>\<open>PYTHONPATH\<close>.
\<close>

theorem external_names_are_fixed:
  "\<exists>l. launches (run_tests os p) = launches p @ [l] \<and>
       executable l = ''python'' \<and> executable l \<noteq> ''python3'' \<and>
       dom (environ l) = insert ''PYTHONPATH'' (dom (ambient p))"
  by (simp add: run_tests_launches)

section \<open>The two directories\<close>

text \<open>
  Claim C4 as it is written says that \<open>root\<close> is the directory that holds the script
  and that \<open>parent\<close> lies one level above the directory that holds the script. For the
  script in \<^verbatim>\<open>/srv/clawd_migrate/scripts\<close> neither is so: \<open>root\<close> is already one
  level above, and \<open>parent\<close> two.
\<close>

theorem root_is_not_the_script_directory:
  "root ''/srv/clawd_migrate/scripts'' \<noteq> ''/srv/clawd_migrate/scripts'' \<and>
   parent ''/srv/clawd_migrate/scripts'' \<noteq> ''/srv/clawd_migrate''"
  by (simp add: root_example parent_example)

text \<open>
  Claim C4, amended. \<open>root\<close> is \<^verbatim>\<open>path.join(__dirname, "..")\<close>, the directory one level
  above the directory that holds the script, and \<open>parent\<close> is the directory one level
  above \<open>root\<close>, two levels above the directory that holds the script (and \<^verbatim>\<open>/\<close> once
  there is nothing above).
\<close>

theorem root_and_parent_levels:
  assumes "\<forall>seg \<in> set segs. proper_segment seg"
  shows "root (absolute segs) = absolute (butlast segs) \<and>
         parent (absolute segs) = absolute (butlast (butlast segs))"
proof -
  have "\<forall>seg \<in> set (butlast segs). proper_segment seg"
    using assms by (meson in_set_butlastD)
  then have "root (absolute (butlast segs)) = absolute (butlast (butlast segs))"
    by (rule root_absolute)
  then show ?thesis
    by (simp add: parent_root root_absolute [OF assms])
qed

theorem root_and_parent_levels_witness:
  "list_all proper_segment [''srv'', ''clawd_migrate'', ''scripts''] \<and>
   absolute [''srv'', ''clawd_migrate'', ''scripts''] = dirname example \<and>
   root (dirname example) = ''/srv/clawd_migrate'' \<and>
   parent (dirname example) = ''/srv''"
proof -
  have h: "\<forall>seg \<in> set [''srv'', ''clawd_migrate'', ''scripts'']. proper_segment seg"
    by (simp add: proper_segment_def)
  have d: "absolute [''srv'', ''clawd_migrate'', ''scripts''] = dirname example"
    by (simp add: absolute_def example_def)
  from root_and_parent_levels [OF h] have
    "root (dirname example) = absolute [''srv'', ''clawd_migrate''] \<and>
     parent (dirname example) = absolute [''srv'']"
    by (simp add: d)
  with h d show ?thesis
    by (simp add: absolute_def)
qed

end
